theory Spec2Isabelle
  imports Complex_Main "HOL-Library.Word" "HOL-Library.Log_Nat"
begin

section \<open>The text-animate component (registry/default/magicui/text-animate.tsx)\<close>

text \<open>
  The component is one function, \<^verbatim>\<open>TextAnimate\<close>, over four constant tables
  (\<^verbatim>\<open>staggerTimings\<close>, \<^verbatim>\<open>defaultContainerVariants\<close>, \<^verbatim>\<open>defaultItemVariants\<close>,
  \<^verbatim>\<open>defaultItemAnimationVariants\<close>). The embedding follows the source function by
  function and table by table.

  Conventions of the embedding:
  \<^item> a JavaScript string is its sequence of UTF-16 code units, \<open>16 word list\<close>:
    \<^verbatim>\<open>split("")\<close> and a regular expression without the \<^verbatim>\<open>u\<close> flag both work on
    code units;
  \<^item> a JavaScript number is an IEEE 754 double: not-a-number, an infinity, or a sign
    and a magnitude that the binary64 format holds; the product and the difference are
    the language's, rounded to the nearest double, ties to even;
  \<^item> an optional property is an \<open>option\<close>; \<open>None\<close> is \<^verbatim>\<open>undefined\<close>, which is what
    makes a destructuring default apply;
  \<^item> an object literal with a fixed set of possible keys is a record of options, absent
    keys being \<open>None\<close>;
  \<^item> the \<^verbatim>\<open>custom\<close> value handed to a variant function is an object of numbers, a map
    from property names to numbers, so that destructuring a missing property gives
    \<open>None\<close> as it gives \<^verbatim>\<open>undefined\<close> in the source.
\<close>

subsection \<open>Strings\<close>

type_synonym code_unit = "16 word"
type_synonym js_string = "code_unit list"

text \<open>An ASCII literal as a JavaScript string.\<close>

definition str :: "string \<Rightarrow> js_string" where
  "str s = map of_char s"

text \<open>The line feed, \<^verbatim>\<open>"\n"\<close>.\<close>

definition LF :: code_unit where
  "LF = 0x000A"

text \<open>
  The character class \<^verbatim>\<open>\s\<close> of an ECMAScript regular expression: the WhiteSpace and
  LineTerminator code points, all of them single code units.
\<close>

definition is_space :: "code_unit \<Rightarrow> bool" where
  "is_space c =
     (c \<in> {0x0009, 0x000A, 0x000B, 0x000C, 0x000D, 0x0020, 0x00A0, 0x1680,
            0x2028, 0x2029, 0x202F, 0x205F, 0x3000, 0xFEFF}
      \<or> (0x2000 \<le> c \<and> c \<le> 0x200A))"

subsection \<open>Numbers\<close>

text \<open>
  A Number value. In \<open>Finite s x\<close> the sign bit is \<open>s\<close> (set for a negative number, and
  for the negative zero) and \<open>x\<close> is the magnitude, a rational that the format holds
  exactly: \<open>m * 2 ^ e\<close> with \<open>m < 2 ^ 53\<close> and \<open>- 1074 \<le> e \<le> 971\<close>.
\<close>

datatype js_number = NaN | Infinity bool | Finite bool rat

definition pow2 :: "int \<Rightarrow> rat" where
  "pow2 e = (if 0 \<le> e then 2 ^ nat e else 1 / 2 ^ nat (- e))"

text \<open>
  The binary exponent of a positive rational, \<open>\<lfloor>log\<^sub>2 x\<rfloor>\<close>, from the bit length of
  its integer part, or of the integer part of its inverse.
\<close>

definition ilog2 :: "rat \<Rightarrow> int" where
  "ilog2 x = (if 1 \<le> x then bitlen \<lfloor>x\<rfloor> - 1 else - bitlen (\<lceil>1 / x\<rceil> - 1))"

text \<open>The nearest integer, the even one of the two at a tie.\<close>

definition round_half_even :: "rat \<Rightarrow> int" where
  "round_half_even x =
     (let f = \<lfloor>x\<rfloor>; d = x - of_int f
      in if d < 1 / 2 then f else if 1 / 2 < d then f + 1 else if even f then f else f + 1)"

text \<open>
  Rounding a magnitude to the format: the unit in the last place is \<open>2 ^ e\<close>, where \<open>e\<close>
  leaves 53 bits to the significand and is not below the exponent of the subnormal
  numbers; the significand is rounded to the nearest integer, ties to even; a result
  of \<open>2 ^ 1024\<close> or more is an infinity.
\<close>

definition round_double :: "bool \<Rightarrow> rat \<Rightarrow> js_number" where
  "round_double s x =
     (if x = 0 then Finite s 0
      else let e = max (ilog2 x - 52) (- 1074);
               m = round_half_even (x / pow2 e)
           in if 971 < e \<or> (e = 971 \<and> 2 ^ 53 \<le> m) then Infinity s
              else Finite s (of_int m * pow2 e))"

text \<open>The value of a decimal literal of the source, and of an array index or length.\<close>

definition dbl :: "rat \<Rightarrow> js_number" where
  "dbl r = round_double (r < 0) \<bar>r\<bar>"

definition js_of_nat :: "nat \<Rightarrow> js_number" where
  "js_of_nat k = round_double False (of_nat k)"

text \<open>Unary minus, the product \<^verbatim>\<open>a * b\<close>, the sum and the difference \<^verbatim>\<open>a - b\<close>.\<close>

fun js_neg :: "js_number \<Rightarrow> js_number" where
  "js_neg NaN = NaN"
| "js_neg (Infinity s) = Infinity (\<not> s)"
| "js_neg (Finite s x) = Finite (\<not> s) x"

fun js_mul :: "js_number \<Rightarrow> js_number \<Rightarrow> js_number" where
  "js_mul NaN b = NaN"
| "js_mul a NaN = NaN"
| "js_mul (Infinity s) (Infinity t) = Infinity (s \<noteq> t)"
| "js_mul (Infinity s) (Finite t y) = (if y = 0 then NaN else Infinity (s \<noteq> t))"
| "js_mul (Finite s x) (Infinity t) = (if x = 0 then NaN else Infinity (s \<noteq> t))"
| "js_mul (Finite s x) (Finite t y) = round_double (s \<noteq> t) (x * y)"

definition signed :: "bool \<Rightarrow> rat \<Rightarrow> rat" where
  "signed s x = (if s then - x else x)"

fun js_add :: "js_number \<Rightarrow> js_number \<Rightarrow> js_number" where
  "js_add NaN b = NaN"
| "js_add a NaN = NaN"
| "js_add (Infinity s) (Infinity t) = (if s = t then Infinity s else NaN)"
| "js_add (Infinity s) (Finite t y) = Infinity s"
| "js_add (Finite s x) (Infinity t) = Infinity t"
| "js_add (Finite s x) (Finite t y) =
     (let v = signed s x + signed t y
      in if v = 0 then Finite (s \<and> t) 0 else round_double (v < 0) \<bar>v\<bar>)"

definition js_sub :: "js_number \<Rightarrow> js_number \<Rightarrow> js_number" where
  "js_sub a b = js_add a (js_neg b)"

subsection \<open>The three uses of \<^verbatim>\<open>String.prototype.split\<close>\<close>

text \<open>
  \<^verbatim>\<open>children.split(/(\s+)/)\<close>. The loop of the language's split over a regular expression
  keeps two positions \<open>p \<le> q\<close>: \<open>p\<close> is where the pending substring starts and \<open>q\<close>
  where the next match is tried. In \<open>split_re cur rest\<close>, \<open>cur\<close> is the text between
  \<open>p\<close> and \<open>q\<close> and \<open>rest\<close> the text from \<open>q\<close> on. The expression \<^verbatim>\<open>\s+\<close> matches at
  \<open>q\<close> exactly when the unit there is white space, and then it takes the whole run
  (\<open>takeWhile is_space rest\<close>); the match is never empty, so the pending substring is
  pushed, then the capture group (the run itself), and both positions move behind the
  run. Where the match fails \<open>q\<close> moves one unit on. At the end of the text the pending
  substring is pushed.
\<close>

function split_re :: "js_string \<Rightarrow> js_string \<Rightarrow> js_string list" where
  "split_re cur [] = [cur]"
| "split_re cur (c # cs) =
     (if is_space c
      then cur # takeWhile is_space (c # cs) # split_re [] (dropWhile is_space (c # cs))
      else split_re (cur @ [c]) cs)"
  by pat_completeness auto
termination
proof (relation "measure (\<lambda>(cur, rest). length rest)")
  fix cur :: js_string and c cs
  assume sp: "is_space c"
  have "length (dropWhile is_space cs) \<le> length cs"
    by (rule length_dropWhile_le)
  with sp
  show "((([]::js_string), dropWhile is_space (c # cs)), (cur, c # cs))
          \<in> measure (\<lambda>(cur, rest). length rest)"
    by simp
qed simp_all

text \<open>
  For the empty string the language does not enter the loop: it tries the expression on
  the empty string and, the match failing (\<^verbatim>\<open>\s+\<close> needs one unit), returns the
  one-element array holding the string.
\<close>

definition split_whitespace :: "js_string \<Rightarrow> js_string list" where
  "split_whitespace s = (if s = [] then [s] else split_re [] s)"

text \<open>\<^verbatim>\<open>children.split("")\<close>: one string per code unit, and no string for the empty string.\<close>

definition split_units :: "js_string \<Rightarrow> js_string list" where
  "split_units s = map (\<lambda>c. [c]) s"

text \<open>
  \<^verbatim>\<open>children.split("\n")\<close>, for a separator of one code unit: the substrings between the
  occurrences of the separator, the separator itself dropped. \<open>cur\<close> is the substring
  read since the last separator.
\<close>

fun split_on :: "code_unit \<Rightarrow> js_string \<Rightarrow> js_string \<Rightarrow> js_string list" where
  "split_on sep cur [] = [cur]"
| "split_on sep cur (c # cs) =
     (if c = sep then cur # split_on sep [] cs else split_on sep (cur @ [c]) cs)"

definition split_sep :: "code_unit \<Rightarrow> js_string \<Rightarrow> js_string list" where
  "split_sep sep s = split_on sep [] s"

text \<open>
  \<^verbatim>\<open>Array.prototype.join\<close> with a separator of one code unit. The component never calls
  it; it is here to say what does reconstruct a text from its lines.
\<close>

fun join_with :: "code_unit \<Rightarrow> js_string list \<Rightarrow> js_string" where
  "join_with sep [] = []"
| "join_with sep [s] = s"
| "join_with sep (s # r # rs) = s @ sep # join_with sep (r # rs)"

subsection \<open>Types of the component\<close>

datatype AnimationType = by_text | by_word | by_character | by_line

datatype AnimationVariant =
    fadeIn | blurIn | blurInUp | blurInDown | slideUp | slideDown
  | slideLeft | slideRight | scaleUp | scaleDown

text \<open>The preset names are string literals in the source; the conditional on
  \<^verbatim>\<open>animation\<close> tests such a string for truthiness.\<close>

fun animation_name :: "AnimationVariant \<Rightarrow> string" where
  "animation_name fadeIn = ''fadeIn''"
| "animation_name blurIn = ''blurIn''"
| "animation_name blurInUp = ''blurInUp''"
| "animation_name blurInDown = ''blurInDown''"
| "animation_name slideUp = ''slideUp''"
| "animation_name slideDown = ''slideDown''"
| "animation_name slideLeft = ''slideLeft''"
| "animation_name slideRight = ''slideRight''"
| "animation_name scaleUp = ''scaleUp''"
| "animation_name scaleDown = ''scaleDown''"

definition truthy :: "string \<Rightarrow> bool" where
  "truthy s = (s \<noteq> [])"

text \<open>
  A transition of one animated property: \<^verbatim>\<open>{ duration: d }\<close> or
  \<^verbatim>\<open>{ type: "spring", damping: a, stiffness: b }\<close>.
\<close>

datatype PropertyTransition = Timed js_number | Spring js_number js_number

text \<open>
  The \<^verbatim>\<open>transition\<close> object of a target: the keys the source writes are \<^verbatim>\<open>delay\<close>,
  \<^verbatim>\<open>duration\<close>, \<^verbatim>\<open>when\<close>, and the per-property \<^verbatim>\<open>y\<close>, \<^verbatim>\<open>opacity\<close>, \<^verbatim>\<open>filter\<close>, \<^verbatim>\<open>scale\<close>.
\<close>

record Transition =
  t_delay :: "js_number option"
  t_duration :: "js_number option"
  t_when :: "string option"
  t_y :: "PropertyTransition option"
  t_opacity :: "PropertyTransition option"
  t_filter :: "PropertyTransition option"
  t_scale :: "PropertyTransition option"

definition no_transition :: Transition where
  "no_transition =
     \<lparr>t_delay = None, t_duration = None, t_when = None, t_y = None, t_opacity = None,
      t_filter = None, t_scale = None\<rparr>"

text \<open>
  A target object: the keys the source writes are \<^verbatim>\<open>opacity\<close>, \<^verbatim>\<open>x\<close>, \<^verbatim>\<open>y\<close>, \<^verbatim>\<open>scale\<close>,
  \<^verbatim>\<open>filter\<close> and \<^verbatim>\<open>transition\<close> (fields \<open>x_pos\<close>, \<open>y_pos\<close> and \<open>blur\<close> for \<^verbatim>\<open>x\<close>, \<^verbatim>\<open>y\<close>
  and \<^verbatim>\<open>filter\<close>).
\<close>

record Target =
  opacity :: "js_number option"
  x_pos :: "js_number option"
  y_pos :: "js_number option"
  scale :: "js_number option"
  blur :: "string option"
  transition :: "Transition option"

definition no_target :: Target where
  "no_target =
     \<lparr>opacity = None, x_pos = None, y_pos = None, scale = None, blur = None,
      transition = None\<rparr>"

type_synonym custom = "string \<rightharpoonup> js_number"

text \<open>A variant is a target object or a function from the \<^verbatim>\<open>custom\<close> value to one.\<close>

datatype Variant = Static Target | Resolver "custom \<Rightarrow> Target"

text \<open>
  The animation engine resolves the variant of the active label with the element's
  \<^verbatim>\<open>custom\<close> property.
\<close>

fun resolveVariant :: "Variant \<Rightarrow> custom \<Rightarrow> Target" where
  "resolveVariant (Static t) c = t"
| "resolveVariant (Resolver f) c = f c"

text \<open>
  Object spread of a variant, \<^verbatim>\<open>{...v}\<close>: the properties of an object, and nothing
  for a function, which has no enumerable property of its own.
\<close>

fun spread :: "Variant \<Rightarrow> Target" where
  "spread (Static t) = t"
| "spread (Resolver f) = no_target"

text \<open>
  A \<^verbatim>\<open>Variants\<close> object, at the three labels the component activates
  (\<^verbatim>\<open>initial="hidden"\<close>, \<^verbatim>\<open>"show"\<close>, \<^verbatim>\<open>exit="exit"\<close>).
\<close>

record Variants =
  v_hidden :: Variant
  v_show :: Variant
  v_exit :: Variant

record VariantSet =
  container :: Variants
  item :: Variants

datatype SegmentClassName = ClassString string | ClassFn "js_string \<Rightarrow> nat \<Rightarrow> string"

record TextAnimateProps =
  children :: js_string
  className :: "string option"
  segmentClassName :: "SegmentClassName option"
  delay :: "js_number option"
  exitDelay :: "js_number option"
  duration :: "js_number option"
  variants :: "Variants option"
  as_prop :: "string option"
  by_prop :: "AnimationType option"
  staggerChildren :: "js_number option"
  startOnView :: "bool option"
  once :: "bool option"
  animation :: "AnimationVariant option"

subsection \<open>Constant tables\<close>

fun staggerTimings :: "AnimationType \<Rightarrow> js_number" where
  "staggerTimings by_text = dbl 0.06"
| "staggerTimings by_word = dbl 0.05"
| "staggerTimings by_character = dbl 0.03"
| "staggerTimings by_line = dbl 0.06"

definition defaultContainerVariants :: Variants where
  "defaultContainerVariants =
     \<lparr>v_hidden = Static (no_target\<lparr>opacity := Some (dbl 1)\<rparr>),
      v_show = Resolver (\<lambda>c. no_target
        \<lparr>opacity := Some (dbl 1),
         transition := Some (no_transition
           \<lparr>t_delay := c ''delay'', t_when := Some ''beforeChildren''\<rparr>)\<rparr>),
      v_exit = Resolver (\<lambda>c. no_target
        \<lparr>opacity := Some (dbl 0),
         transition := Some (no_transition
           \<lparr>t_delay := c ''exitDelay'', t_when := Some ''afterChildren''\<rparr>)\<rparr>)\<rparr>"

definition defaultItemVariants :: Variants where
  "defaultItemVariants =
     \<lparr>v_hidden = Static (no_target\<lparr>opacity := Some (dbl 0)\<rparr>),
      v_show = Static (no_target\<lparr>opacity := Some (dbl 1)\<rparr>),
      v_exit = Static (no_target\<lparr>opacity := Some (dbl 0)\<rparr>)\<rparr>"

text \<open>The transition \<^verbatim>\<open>{ delay: d, duration: 0.3 }\<close> that most presets use.\<close>

definition timed :: "js_number option \<Rightarrow> Transition" where
  "timed d = no_transition\<lparr>t_delay := d, t_duration := Some (dbl 0.3)\<rparr>"

text \<open>
  The transition of the blur presets with its per-property durations:
  \<^verbatim>\<open>{ delay: d, duration: 0.3, y: { duration: 0.3 }, opacity: { duration: 0.4 },
  filter: { duration: 0.3 } }\<close>.
\<close>

definition timed_blur :: "js_number option \<Rightarrow> Transition" where
  "timed_blur d =
     no_transition\<lparr>t_delay := d, t_duration := Some (dbl 0.3), t_y := Some (Timed (dbl 0.3)),
       t_opacity := Some (Timed (dbl 0.4)), t_filter := Some (Timed (dbl 0.3))\<rparr>"

text \<open>
  The transition of the scale presets' \<^verbatim>\<open>show\<close>:
  \<^verbatim>\<open>{ delay: d, duration: 0.3, scale: { type: "spring", damping: 15, stiffness: 300 } }\<close>.
\<close>

definition timed_spring :: "js_number option \<Rightarrow> Transition" where
  "timed_spring d =
     no_transition\<lparr>t_delay := d, t_duration := Some (dbl 0.3), t_scale := Some (Spring (dbl 15) (dbl 300))\<rparr>"

fun defaultItemAnimationVariants :: "AnimationVariant \<Rightarrow> VariantSet" where
  "defaultItemAnimationVariants fadeIn =
     \<lparr>container = defaultContainerVariants,
      item =
       \<lparr>v_hidden = Static (no_target\<lparr>opacity := Some (dbl 0), y_pos := Some (dbl 20)\<rparr>),
        v_show = Resolver (\<lambda>c. no_target
          \<lparr>opacity := Some (dbl 1), y_pos := Some (dbl 0),
           transition := Some (timed (c ''entryStaggerDelay''))\<rparr>),
        v_exit = Resolver (\<lambda>c. no_target
          \<lparr>opacity := Some (dbl 0), y_pos := Some (dbl 20),
           transition := Some (timed (c ''exitStaggerDelay''))\<rparr>)\<rparr>\<rparr>"
| "defaultItemAnimationVariants blurIn =
     \<lparr>container = defaultContainerVariants,
      item =
       \<lparr>v_hidden = Static (no_target\<lparr>opacity := Some (dbl 0), blur := Some ''blur(10px)''\<rparr>),
        v_show = Resolver (\<lambda>c. no_target
          \<lparr>opacity := Some (dbl 1), blur := Some ''blur(0px)'',
           transition := Some (timed (c ''entryStaggerDelay''))\<rparr>),
        v_exit = Resolver (\<lambda>c. no_target
          \<lparr>opacity := Some (dbl 0), blur := Some ''blur(10px)'',
           transition := Some (timed (c ''exitStaggerDelay''))\<rparr>)\<rparr>\<rparr>"
| "defaultItemAnimationVariants blurInUp =
     \<lparr>container = defaultContainerVariants,
      item =
       \<lparr>v_hidden = Static (no_target
          \<lparr>opacity := Some (dbl 0), y_pos := Some (dbl 20), blur := Some ''blur(10px)''\<rparr>),
        v_show = Resolver (\<lambda>c. no_target
          \<lparr>opacity := Some (dbl 1), y_pos := Some (dbl 0), blur := Some ''blur(0px)'',
           transition := Some (timed_blur (c ''entryStaggerDelay''))\<rparr>),
        v_exit = Resolver (\<lambda>c. no_target
          \<lparr>opacity := Some (dbl 0), y_pos := Some (dbl 20), blur := Some ''blur(10px)'',
           transition := Some (timed_blur (c ''exitStaggerDelay''))\<rparr>)\<rparr>\<rparr>"
| "defaultItemAnimationVariants blurInDown =
     \<lparr>container = defaultContainerVariants,
      item =
       \<lparr>v_hidden = Static (no_target
          \<lparr>opacity := Some (dbl 0), y_pos := Some (js_neg (dbl 20)), blur := Some ''blur(10px)''\<rparr>),
        v_show = Resolver (\<lambda>c. no_target
          \<lparr>opacity := Some (dbl 1), y_pos := Some (dbl 0), blur := Some ''blur(0px)'',
           transition := Some (no_transition
             \<lparr>t_y := Some (Timed (dbl 0.3)), t_opacity := Some (Timed (dbl 0.4)),
              t_filter := Some (Timed (dbl 0.3))\<rparr>)\<rparr>),
        v_exit = Resolver (\<lambda>c. no_target
          \<lparr>opacity := Some (dbl 0), y_pos := Some (js_neg (dbl 20)), blur := Some ''blur(10px)'',
           transition := Some (timed_blur (c ''exitStaggerDelay''))\<rparr>)\<rparr>\<rparr>"
| "defaultItemAnimationVariants slideUp =
     \<lparr>container = defaultContainerVariants,
      item =
       \<lparr>v_hidden = Static (no_target\<lparr>opacity := Some (dbl 0), y_pos := Some (dbl 20)\<rparr>),
        v_show = Resolver (\<lambda>c. no_target
          \<lparr>opacity := Some (dbl 1), y_pos := Some (dbl 0),
           transition := Some (timed (c ''entryStaggerDelay''))\<rparr>),
        v_exit = Resolver (\<lambda>c. no_target
          \<lparr>opacity := Some (dbl 0), y_pos := Some (js_neg (dbl 20)),
           transition := Some (timed (c ''exitStaggerDelay''))\<rparr>)\<rparr>\<rparr>"
| "defaultItemAnimationVariants slideDown =
     \<lparr>container = defaultContainerVariants,
      item =
       \<lparr>v_hidden = Static (no_target\<lparr>opacity := Some (dbl 0), y_pos := Some (js_neg (dbl 20))\<rparr>),
        v_show = Resolver (\<lambda>c. no_target
          \<lparr>opacity := Some (dbl 1), y_pos := Some (dbl 0),
           transition := Some (timed (c ''entryStaggerDelay''))\<rparr>),
        v_exit = Resolver (\<lambda>c. no_target
          \<lparr>opacity := Some (dbl 0), y_pos := Some (dbl 20),
           transition := Some (timed (c ''exitStaggerDelay''))\<rparr>)\<rparr>\<rparr>"
| "defaultItemAnimationVariants slideLeft =
     \<lparr>container = defaultContainerVariants,
      item =
       \<lparr>v_hidden = Static (no_target\<lparr>opacity := Some (dbl 0), x_pos := Some (dbl 20)\<rparr>),
        v_show = Resolver (\<lambda>c. no_target
          \<lparr>opacity := Some (dbl 1), x_pos := Some (dbl 0),
           transition := Some (timed (c ''entryStaggerDelay''))\<rparr>),
        v_exit = Resolver (\<lambda>c. no_target
          \<lparr>opacity := Some (dbl 0), x_pos := Some (js_neg (dbl 20)),
           transition := Some (timed (c ''exitStaggerDelay''))\<rparr>)\<rparr>\<rparr>"
| "defaultItemAnimationVariants slideRight =
     \<lparr>container = defaultContainerVariants,
      item =
       \<lparr>v_hidden = Static (no_target\<lparr>opacity := Some (dbl 0), x_pos := Some (js_neg (dbl 20))\<rparr>),
        v_show = Resolver (\<lambda>c. no_target
          \<lparr>opacity := Some (dbl 1), x_pos := Some (dbl 0),
           transition := Some (timed (c ''entryStaggerDelay''))\<rparr>),
        v_exit = Resolver (\<lambda>c. no_target
          \<lparr>opacity := Some (dbl 0), x_pos := Some (dbl 20),
           transition := Some (timed (c ''exitStaggerDelay''))\<rparr>)\<rparr>\<rparr>"
| "defaultItemAnimationVariants scaleUp =
     \<lparr>container = defaultContainerVariants,
      item =
       \<lparr>v_hidden = Static (no_target\<lparr>opacity := Some (dbl 0), scale := Some (dbl 0.5)\<rparr>),
        v_show = Resolver (\<lambda>c. no_target
          \<lparr>opacity := Some (dbl 1), scale := Some (dbl 1),
           transition := Some (timed_spring (c ''entryStaggerDelay''))\<rparr>),
        v_exit = Resolver (\<lambda>c. no_target
          \<lparr>opacity := Some (dbl 0), scale := Some (dbl 0.5),
           transition := Some (timed (c ''exitStaggerDelay''))\<rparr>)\<rparr>\<rparr>"
| "defaultItemAnimationVariants scaleDown =
     \<lparr>container = defaultContainerVariants,
      item =
       \<lparr>v_hidden = Static (no_target\<lparr>opacity := Some (dbl 0), scale := Some (dbl 1.5)\<rparr>),
        v_show = Resolver (\<lambda>c. no_target
          \<lparr>opacity := Some (dbl 1), scale := Some (dbl 1),
           transition := Some (timed_spring (c ''entryStaggerDelay''))\<rparr>),
        v_exit = Resolver (\<lambda>c. no_target
          \<lparr>opacity := Some (dbl 0), scale := Some (dbl 1.5),
           transition := Some (timed (c ''exitStaggerDelay''))\<rparr>)\<rparr>\<rparr>"

subsection \<open>The component\<close>

text \<open>A destructuring default: the default applies where the property is \<^verbatim>\<open>undefined\<close>.\<close>

fun or_default :: "'a option \<Rightarrow> 'a \<Rightarrow> 'a" where
  "or_default None d = d"
| "or_default (Some v) d = v"

text \<open>
  The parameters of \<^verbatim>\<open>TextAnimate\<close> after destructuring, one definition for each
  parameter that has a default. \<open>duration_of\<close> is the binding \<^verbatim>\<open>duration = 0.3\<close>; like
  \<^verbatim>\<open>variants\<close>, the body of the source function never reads it.
\<close>

definition delay_of :: "TextAnimateProps \<Rightarrow> js_number" where
  "delay_of p = or_default (delay p) (dbl 0)"

definition exitDelay_of :: "TextAnimateProps \<Rightarrow> js_number" where
  "exitDelay_of p = or_default (exitDelay p) (dbl 0)"

definition duration_of :: "TextAnimateProps \<Rightarrow> js_number" where
  "duration_of p = or_default (duration p) (dbl 0.3)"

definition as_of :: "TextAnimateProps \<Rightarrow> string" where
  "as_of p = or_default (as_prop p) ''span''"

definition startOnView_of :: "TextAnimateProps \<Rightarrow> bool" where
  "startOnView_of p = or_default (startOnView p) True"

definition once_of :: "TextAnimateProps \<Rightarrow> bool" where
  "once_of p = or_default (once p) False"

definition by_of :: "TextAnimateProps \<Rightarrow> AnimationType" where
  "by_of p = or_default (by_prop p) by_word"

definition staggerChildren_of :: "TextAnimateProps \<Rightarrow> js_number" where
  "staggerChildren_of p = or_default (staggerChildren p) (staggerTimings (by_of p))"

definition animation_of :: "TextAnimateProps \<Rightarrow> AnimationVariant" where
  "animation_of p = or_default (animation p) fadeIn"

text \<open>
  \<^verbatim>\<open>finalVariants\<close>. The container of the preset is spread and its \<^verbatim>\<open>show\<close> and \<^verbatim>\<open>exit\<close>
  are replaced by functions that spread the preset's own \<^verbatim>\<open>show\<close> and \<^verbatim>\<open>exit\<close> and set
  the transition.
\<close>

definition finalVariants :: "AnimationVariant \<Rightarrow> VariantSet" where
  "finalVariants a =
     (if truthy (animation_name a)
      then
        \<lparr>container = (container (defaultItemAnimationVariants a))
           \<lparr>v_show := Resolver (\<lambda>c.
              (spread (v_show (container (defaultItemAnimationVariants a))))
                \<lparr>transition := Some (no_transition
                   \<lparr>t_delay := c ''delay'', t_when := Some ''beforeChildren''\<rparr>)\<rparr>),
            v_exit := Resolver (\<lambda>c.
              (spread (v_exit (container (defaultItemAnimationVariants a))))
                \<lparr>transition := Some (no_transition
                   \<lparr>t_delay := c ''exitDelay'', t_when := Some ''afterChildren''\<rparr>)\<rparr>)\<rparr>,
         item = item (defaultItemAnimationVariants a)\<rparr>
      else \<lparr>container = defaultContainerVariants, item = defaultItemVariants\<rparr>)"

text \<open>The \<^verbatim>\<open>switch (by)\<close> that fills \<^verbatim>\<open>segments\<close>.\<close>

fun segments :: "AnimationType \<Rightarrow> js_string \<Rightarrow> js_string list" where
  "segments by_word s = split_whitespace s"
| "segments by_character s = split_units s"
| "segments by_line s = split_sep LF s"
| "segments by_text s = [s]"

text \<open>
  The rendered tree: the container element with the properties the source sets on it,
  and one \<^verbatim>\<open>motion.span\<close> for each segment. Class names are kept as the argument lists
  of the class-merging helper, which is not part of this file; the React key and the
  caller's remaining motion properties (\<^verbatim>\<open>...props\<close>) are left out.
\<close>

record ItemNode =
  i_variants :: Variants
  i_custom :: custom
  i_className :: "string option list"
  i_text :: js_string

record ContainerNode =
  c_tag :: string
  c_variants :: Variants
  c_initial :: string
  c_custom :: custom
  c_whileInView :: "string option"
  c_animate :: "string option"
  c_viewport_once :: bool
  c_exit :: string
  c_className :: "string option list"
  c_children :: "ItemNode list"

text \<open>The class of one segment: \<^verbatim>\<open>typeof segmentClassName === "function" ? ... : ...\<close>.\<close>

fun segment_class :: "SegmentClassName option \<Rightarrow> js_string \<Rightarrow> nat \<Rightarrow> string option" where
  "segment_class None segment i = None"
| "segment_class (Some (ClassString s)) segment i = Some s"
| "segment_class (Some (ClassFn f)) segment i = Some (f segment i)"

text \<open>The body of \<^verbatim>\<open>segments.map((segment, i, segments) => ...)\<close>, \<open>n\<close> being
  \<^verbatim>\<open>segments.length\<close>.\<close>

definition item_node ::
  "TextAnimateProps \<Rightarrow> Variants \<Rightarrow> nat \<Rightarrow> nat \<times> js_string \<Rightarrow> ItemNode" where
  "item_node p vs n = (\<lambda>(i, segment).
     \<lparr>i_variants = vs,
      i_custom =
        [''entryStaggerDelay'' \<mapsto> js_mul (js_of_nat i) (staggerChildren_of p),
         ''exitStaggerDelay'' \<mapsto>
           js_mul (js_sub (js_sub (js_of_nat n) (js_of_nat i)) (dbl 1)) (staggerChildren_of p)],
      i_className =
        [Some (if by_of p = by_line then ''block'' else ''inline-block whitespace-pre''),
         segment_class (segmentClassName p) segment i],
      i_text = segment\<rparr>)"

definition TextAnimate :: "TextAnimateProps \<Rightarrow> ContainerNode" where
  "TextAnimate p =
     (let fv = finalVariants (animation_of p);
          segs = segments (by_of p) (children p)
      in
        \<lparr>c_tag = as_of p,
         c_variants = container fv,
         c_initial = ''hidden'',
         c_custom = [''delay'' \<mapsto> delay_of p, ''exitDelay'' \<mapsto> exitDelay_of p],
         c_whileInView = (if startOnView_of p then Some ''show'' else None),
         c_animate = (if startOnView_of p then None else Some ''show''),
         c_viewport_once = once_of p,
         c_exit = ''exit'',
         c_className = [Some ''whitespace-pre-wrap'', className p],
         c_children = map (item_node p (item fv) (length segs)) (enumerate 0 segs)\<rparr>)"

text \<open>The stagger offsets an item receives, and the delay and duration of a target's
  transition.\<close>

definition entryOffset :: "ItemNode \<Rightarrow> js_number option" where
  "entryOffset nd = i_custom nd ''entryStaggerDelay''"

definition exitOffset :: "ItemNode \<Rightarrow> js_number option" where
  "exitOffset nd = i_custom nd ''exitStaggerDelay''"

fun transition_delay :: "Target \<Rightarrow> js_number option" where
  "transition_delay t = (case transition t of None \<Rightarrow> None | Some tr \<Rightarrow> t_delay tr)"

fun transition_duration :: "Target \<Rightarrow> js_number option" where
  "transition_duration t = (case transition t of None \<Rightarrow> None | Some tr \<Rightarrow> t_duration tr)"

subsection \<open>Notions used to state the properties\<close>

text \<open>
  The shape of a text cut at its white space: a list \<open>w\<^sub>0, r\<^sub>1, w\<^sub>1, ..., r\<^sub>k, w\<^sub>k\<close> in
  which every \<open>r\<close> is a run of white space, not empty, every \<open>w\<close> is free of white
  space, and only the first and the last \<open>w\<close> may be empty. Runs and words are then
  whole: a run is followed and preceded by a unit that is not white space or by an end
  of the text, and so is a word by white space or an end of the text. The flag says
  whether the head of the list is the first \<open>w\<close>.
\<close>

fun words_and_runs :: "bool \<Rightarrow> js_string list \<Rightarrow> bool" where
  "words_and_runs first [] = False"
| "words_and_runs first [w] = list_all (\<lambda>c. \<not> is_space c) w"
| "words_and_runs first (w # r # rest) =
     ((first \<or> w \<noteq> []) \<and> list_all (\<lambda>c. \<not> is_space c) w
      \<and> r \<noteq> [] \<and> list_all is_space r \<and> words_and_runs False rest)"

text \<open>
  The call \<^verbatim>\<open><TextAnimate by="word" animation="fadeIn">Hello world</TextAnimate>\<close>.
\<close>

definition hello_world_props :: TextAnimateProps where
  "hello_world_props =
     \<lparr>children = str ''Hello world'', className = None, segmentClassName = None,
      delay = None, exitDelay = None, duration = None, variants = None, as_prop = None,
      by_prop = Some by_word, staggerChildren = None, startOnView = None, once = None,
      animation = Some fadeIn\<rparr>"

section \<open>Properties of the segmenter\<close>

subsection \<open>Splitting at white space\<close>

lemma concat_split_re: "concat (split_re cur rest) = cur @ rest"
  by (induction cur rest rule: split_re.induct) (simp_all add: takeWhile_dropWhile_id)

lemma list_all_takeWhile: "list_all P (takeWhile P xs)"
  by (induction xs) simp_all

lemma split_re_form:
  "list_all (\<lambda>c. \<not> is_space c) cur \<Longrightarrow>
   first \<or> cur \<noteq> [] \<or> rest = [] \<or> \<not> is_space (hd rest) \<Longrightarrow>
   words_and_runs first (split_re cur rest)"
proof (induction cur rest arbitrary: first rule: split_re.induct)
  case (1 cur)
  then show ?case by simp
next
  case (2 cur c cs)
  show ?case
  proof (cases "is_space c")
    case True
    let ?rest = "dropWhile is_space (c # cs)"
    have "?rest = [] \<or> \<not> is_space (hd ?rest)"
      using hd_dropWhile[of is_space "c # cs"] by blast
    then have "words_and_runs False (split_re [] ?rest)"
      using 2(1)[OF True, of False] by simp
    moreover have "list_all is_space (takeWhile is_space (c # cs))"
      by (rule list_all_takeWhile)
    moreover have "takeWhile is_space (c # cs) \<noteq> []" using True by simp
    moreover have "first \<or> cur \<noteq> []" using 2(4) True by simp
    ultimately show ?thesis using True 2(3) by simp
  next
    case False
    have "words_and_runs first (split_re (cur @ [c]) cs)"
      using 2(2)[OF False, of first] 2(3) False by simp
    with False show ?thesis by simp
  qed
qed

lemma split_re_word:
  "list_all (\<lambda>c. \<not> is_space c) w \<Longrightarrow> split_re cur (w @ rest) = split_re (cur @ w) rest"
  by (induction w arbitrary: cur) simp_all

lemma words_and_runs_start:
  assumes "words_and_runs False ys"
  shows "concat ys = [] \<or> \<not> is_space (hd (concat ys))"
proof (cases ys)
  case Nil
  with assms show ?thesis by simp
next
  case (Cons w ys')
  show ?thesis
  proof (cases ys')
    case Nil
    with Cons assms show ?thesis by (cases w) simp_all
  next
    case (Cons r rest)
    with \<open>ys = w # ys'\<close> assms show ?thesis by (cases w) simp_all
  qed
qed

lemma takeWhile_stop:
  "z = [] \<or> \<not> P (hd z) \<Longrightarrow> takeWhile P z = [] \<and> dropWhile P z = z"
  by (cases z) auto

lemma takeWhile_run:
  "list_all P r \<Longrightarrow> z = [] \<or> \<not> P (hd z) \<Longrightarrow>
   takeWhile P (r @ z) = r \<and> dropWhile P (r @ z) = z"
  by (induction r) (simp_all add: takeWhile_stop)

lemma split_re_unique:
  "words_and_runs first ys \<Longrightarrow> list_all (\<lambda>c. \<not> is_space c) cur \<Longrightarrow>
   split_re cur (concat ys) = (cur @ hd ys) # tl ys"
proof (induction first ys arbitrary: cur rule: words_and_runs.induct)
  case (1 first)
  then show ?case by simp
next
  case (2 first w)
  then show ?case using split_re_word[of w cur "[]"] by simp
next
  case (3 first w r rest)
  from 3(2) have w: "list_all (\<lambda>c. \<not> is_space c) w"
    and r: "r \<noteq> []" "list_all is_space r"
    and rest: "words_and_runs False rest" by simp_all
  from rest have ne: "rest \<noteq> []" by (cases rest) simp_all
  have z: "concat rest = [] \<or> \<not> is_space (hd (concat rest))"
    by (rule words_and_runs_start[OF rest])
  from r obtain c cs where rc: "r = c # cs" and c: "is_space c" by (cases r) simp_all
  have tk: "takeWhile is_space (r @ concat rest) = r"
    and dr: "dropWhile is_space (r @ concat rest) = concat rest"
    using takeWhile_run[OF r(2) z] by simp_all
  have ih: "split_re [] (concat rest) = rest"
    using 3(1)[OF rest, of "[]"] ne by simp
  have "split_re cur (concat (w # r # rest)) = split_re (cur @ w) (r @ concat rest)"
    using split_re_word[OF w] by simp
  also have "\<dots> = (cur @ w) # r # split_re [] (concat rest)"
    using tk dr c unfolding rc by simp
  finally show ?case using ih by simp
qed

text \<open>
  C2. At the word granularity the segments, concatenated in order, are the input text,
  whatever the text, and they are its words and its white-space runs, each of them
  whole and the runs segments of their own: the segments are the one list of that shape
  that concatenates to the text.
\<close>

theorem word_segments_concat:
  "concat (segments by_word t) = t
   \<and> words_and_runs True (segments by_word t)
   \<and> (concat ys = t \<and> words_and_runs True ys \<longleftrightarrow> ys = segments by_word t)"
proof -
  have c: "concat (segments by_word t) = t" for t
    by (simp add: split_whitespace_def concat_split_re)
  have f: "words_and_runs True (segments by_word t)" for t
    by (simp add: split_whitespace_def split_re_form)
  have u: "ys = segments by_word (concat ys)" if wr: "words_and_runs True ys"
  proof (cases "concat ys = []")
    case True
    have "ys = [[]]"
    proof (cases ys)
      case Nil
      with wr show ?thesis by simp
    next
      case (Cons w ys')
      show ?thesis
      proof (cases ys')
        case Nil
        with Cons True show ?thesis by simp
      next
        case (Cons r rest)
        with \<open>ys = w # ys'\<close> wr True show ?thesis by simp
      qed
    qed
    then show ?thesis by (simp add: split_whitespace_def)
  next
    case False
    from wr have "ys \<noteq> []" by (cases ys) simp_all
    with split_re_unique[OF wr, of "[]"] have "split_re [] (concat ys) = ys" by simp
    with False show ?thesis
      by (simp only: segments.simps split_whitespace_def if_False)
  qed
  show ?thesis using c f u by blast
qed

subsection \<open>Splitting at newlines\<close>

lemma concat_split_on: "concat (split_on sep cur rest) = cur @ filter (\<lambda>c. c \<noteq> sep) rest"
  by (induction sep cur rest rule: split_on.induct) simp_all

lemma split_on_not_Nil: "split_on sep cur rest \<noteq> []"
  by (induction sep cur rest rule: split_on.induct) simp_all

lemma join_with_Cons: "xs \<noteq> [] \<Longrightarrow> join_with sep (s # xs) = s @ sep # join_with sep xs"
  by (cases xs) simp_all

lemma join_split_on: "join_with sep (split_on sep cur rest) = cur @ rest"
  by (induction sep cur rest rule: split_on.induct)
     (simp_all add: join_with_Cons split_on_not_Nil)

text \<open>
  C3, as the code has it. At the line granularity the segments, concatenated in order,
  are the input text without its newlines; it is joining them with a newline between
  consecutive segments that gives the input text back.
\<close>

theorem line_segments_join:
  "concat (segments by_line t) = filter (\<lambda>c. c \<noteq> LF) t
   \<and> join_with LF (segments by_line t) = t"
  by (simp add: split_sep_def concat_split_on join_split_on)

text \<open>
  C3 as stated fails on a text with a newline: the two lines of \<^verbatim>\<open>"a\nb"\<close> concatenate
  to \<^verbatim>\<open>"ab"\<close>.
\<close>

theorem line_segments_concat_counterexample:
  "concat (segments by_line (str ''a'' @ [LF] @ str ''b'')) \<noteq> str ''a'' @ [LF] @ str ''b''"
  by (simp add: split_sep_def str_def LF_def)

subsection \<open>Segment counts\<close>

lemma last_dropWhile: "dropWhile P xs \<noteq> [] \<Longrightarrow> last (dropWhile P xs) = last xs"
  by (induction xs) (auto split: if_splits)

lemma split_re_nonempty:
  "(cur \<noteq> [] \<or> (rest \<noteq> [] \<and> \<not> is_space (hd rest))) \<Longrightarrow>
   (rest = [] \<or> \<not> is_space (last rest)) \<Longrightarrow> [] \<notin> set (split_re cur rest)"
proof (induction cur rest rule: split_re.induct)
  case (1 cur)
  then show ?case by simp
next
  case (2 cur c cs)
  show ?case
  proof (cases "is_space c")
    case True
    with 2(3) have cur: "cur \<noteq> []" by simp
    from 2(4) have nl: "\<not> is_space (last (c # cs))" by simp
    have "last (c # cs) \<in> set (c # cs)" by (rule last_in_set) simp
    with nl have dne: "dropWhile is_space (c # cs) \<noteq> []"
      by (metis dropWhile_eq_Nil_conv)
    have hdn: "\<not> is_space (hd (dropWhile is_space (c # cs)))"
      using dne by (rule hd_dropWhile)
    have lastn: "\<not> is_space (last (dropWhile is_space (c # cs)))"
      using last_dropWhile[OF dne] nl by simp
    have "[] \<notin> set (split_re [] (dropWhile is_space (c # cs)))"
      using 2(1)[OF True] dne hdn lastn by blast
    with True cur show ?thesis by simp
  next
    case False
    have "[] \<notin> set (split_re (cur @ [c]) cs)"
      using 2(2)[OF False] 2(4) by (cases cs) (auto split: if_splits)
    with False show ?thesis by simp
  qed
qed

lemma length_le_concat:
  "[] \<notin> set xs \<Longrightarrow> length xs \<le> length (concat xs)
     \<and> (length xs = length (concat xs) \<longleftrightarrow> list_all (\<lambda>s. length s = 1) xs)"
proof (induction xs)
  case Nil
  then show ?case by simp
next
  case (Cons s xs)
  define k where "k = length s"
  define m where "m = length (concat xs)"
  from Cons.prems have "s \<noteq> []" by auto
  then have k: "1 \<le> k" unfolding k_def by (cases s) simp_all
  from Cons have le: "length xs \<le> m"
    and eq: "length xs = m \<longleftrightarrow> list_all (\<lambda>s. length s = 1) xs"
    unfolding m_def by auto
  have "Suc (length xs) \<le> k + m" using k le by arith
  moreover have "Suc (length xs) = k + m \<longleftrightarrow> k = 1 \<and> length xs = m"
    using k le by arith
  ultimately show ?case using eq by (simp add: k_def m_def)
qed

text \<open>
  C8, as the code has it. For a text that is not empty and neither begins nor ends with
  white space, going from the word to the character granularity never lowers the number
  of segments, and leaves it equal exactly when every word segment is one code unit long.
\<close>

theorem word_character_count:
  assumes "t \<noteq> []" and "\<not> is_space (hd t)" and "\<not> is_space (last t)"
  shows "length (segments by_word t) \<le> length (segments by_character t)
    \<and> (length (segments by_word t) = length (segments by_character t)
        \<longleftrightarrow> list_all (\<lambda>s. length s = 1) (segments by_word t))"
proof -
  have ne: "[] \<notin> set (split_re [] t)"
    using assms by (intro split_re_nonempty) simp_all
  from length_le_concat[OF ne] assms(1) show ?thesis
    by (simp add: split_whitespace_def split_units_def concat_split_re)
qed

text \<open>The text \<^verbatim>\<open>"Hello world"\<close>: three word segments, eleven character segments.\<close>

theorem word_character_count_witness:
  "str ''Hello world'' \<noteq> [] \<and> \<not> is_space (hd (str ''Hello world''))
   \<and> \<not> is_space (last (str ''Hello world''))
   \<and> length (segments by_word (str ''Hello world''))
        \<le> length (segments by_character (str ''Hello world''))
   \<and> (length (segments by_word (str ''Hello world''))
        = length (segments by_character (str ''Hello world''))
        \<longleftrightarrow> list_all (\<lambda>s. length s = 1) (segments by_word (str ''Hello world'')))"
  using word_character_count[of "str ''Hello world''"]
  by (simp add: str_def is_space_def)

text \<open>
  C8 as stated fails on three texts: \<^verbatim>\<open>"a b"\<close> has three segments either way and is not
  a single character; the empty text has one word segment and no character segment; a
  single blank has three word segments (two of them empty) and one character segment.
\<close>

theorem word_character_count_counterexample:
  "\<not> (length (segments by_word (str ''a b'')) < length (segments by_character (str ''a b''))
      \<or> (length (str ''a b'') = 1
          \<and> length (segments by_word (str ''a b''))
              = length (segments by_character (str ''a b''))))
   \<and> \<not> (length (segments by_word []) < length (segments by_character [])
      \<or> (length ([]::js_string) = 1
          \<and> length (segments by_word []) = length (segments by_character [])))
   \<and> \<not> (length (segments by_word (str '' '')) < length (segments by_character (str '' ''))
      \<or> (length (str '' '') = 1
          \<and> length (segments by_word (str '' ''))
              = length (segments by_character (str '' ''))))"
  by (simp add: str_def is_space_def split_whitespace_def split_units_def)

subsection \<open>The empty text\<close>

text \<open>
  C10. On the empty string the granularities \<^verbatim>\<open>text\<close>, \<^verbatim>\<open>word\<close> and \<^verbatim>\<open>line\<close> each give
  exactly one segment, the empty string, and \<^verbatim>\<open>character\<close> gives no segment at all.
\<close>

theorem segments_empty_string:
  "segments by_text [] = [[]] \<and> segments by_word [] = [[]] \<and> segments by_line [] = [[]]
   \<and> segments by_character [] = []"
  by (simp add: split_whitespace_def split_units_def split_sep_def)

section \<open>Properties of the preset table\<close>

text \<open>
  C9. The item of \<^verbatim>\<open>slideLeft\<close> is hidden at \<^verbatim>\<open>x = 20\<close> and shown at \<^verbatim>\<open>x = 0\<close>; the item
  of \<^verbatim>\<open>slideRight\<close> is hidden at \<^verbatim>\<open>x = -20\<close> and shown at \<^verbatim>\<open>x = 0\<close>, whatever the stagger
  offsets. The component renders these items unchanged.
\<close>

theorem slide_presets:
  "x_pos (resolveVariant (v_hidden (item (defaultItemAnimationVariants slideLeft))) c) = Some (dbl 20)
   \<and> x_pos (resolveVariant (v_show (item (defaultItemAnimationVariants slideLeft))) c) = Some (dbl 0)
   \<and> x_pos (resolveVariant (v_hidden (item (defaultItemAnimationVariants slideRight))) c)
        = Some (js_neg (dbl 20))
   \<and> x_pos (resolveVariant (v_show (item (defaultItemAnimationVariants slideRight))) c) = Some (dbl 0)
   \<and> item (finalVariants slideLeft) = item (defaultItemAnimationVariants slideLeft)
   \<and> item (finalVariants slideRight) = item (defaultItemAnimationVariants slideRight)"
  by (simp add: no_target_def finalVariants_def truthy_def)

text \<open>
  Every preset but \<^verbatim>\<open>blurInDown\<close> delays its \<^verbatim>\<open>show\<close> by the entry offset, and every
  preset delays its \<^verbatim>\<open>exit\<close> by the exit offset, both for 0.3 seconds.
\<close>

lemma other_presets_show_delay:
  "a \<noteq> blurInDown \<Longrightarrow>
   transition_delay (resolveVariant (v_show (item (defaultItemAnimationVariants a))) c)
     = c ''entryStaggerDelay''
   \<and> transition_duration (resolveVariant (v_show (item (defaultItemAnimationVariants a))) c)
     = Some (dbl 0.3)"
  by (cases a)
     (simp_all add: no_target_def no_transition_def timed_def timed_blur_def timed_spring_def)

lemma all_presets_exit_delay:
  "transition_delay (resolveVariant (v_exit (item (defaultItemAnimationVariants a))) c)
     = c ''exitStaggerDelay''
   \<and> transition_duration (resolveVariant (v_exit (item (defaultItemAnimationVariants a))) c)
     = Some (dbl 0.3)"
  by (cases a)
     (simp_all add: no_target_def no_transition_def timed_def timed_blur_def timed_spring_def)

text \<open>
  C5 at the preset \<^verbatim>\<open>blurInDown\<close>. Its \<^verbatim>\<open>show\<close> function receives the entry offset and
  returns a transition with neither a delay nor a duration, for any offsets \<open>e\<close> and
  \<open>x\<close>; its \<^verbatim>\<open>exit\<close> is delayed by the exit offset, and the \<^verbatim>\<open>show\<close> of its sibling
  \<^verbatim>\<open>blurInUp\<close> by the entry offset.
\<close>

theorem blurInDown_show_delay:
  "transition_delay (resolveVariant (v_show (item (defaultItemAnimationVariants blurInDown)))
      [''entryStaggerDelay'' \<mapsto> e, ''exitStaggerDelay'' \<mapsto> x]) = None
   \<and> transition_duration (resolveVariant (v_show (item (defaultItemAnimationVariants blurInDown)))
      [''entryStaggerDelay'' \<mapsto> e, ''exitStaggerDelay'' \<mapsto> x]) = None
   \<and> transition_delay (resolveVariant (v_exit (item (defaultItemAnimationVariants blurInDown)))
      [''entryStaggerDelay'' \<mapsto> e, ''exitStaggerDelay'' \<mapsto> x]) = Some x
   \<and> transition_delay (resolveVariant (v_show (item (defaultItemAnimationVariants blurInUp)))
      [''entryStaggerDelay'' \<mapsto> e, ''exitStaggerDelay'' \<mapsto> x]) = Some e"
  by (simp add: no_target_def no_transition_def timed_blur_def)

section \<open>Properties of the numbers\<close>

text \<open>The binary exponent is the right one: \<open>2 ^ ilog2 x \<le> x < 2 ^ (ilog2 x + 1)\<close>.\<close>

lemma ilog2_bounds:
  assumes "0 < x"
  shows "pow2 (ilog2 x) \<le> x \<and> x < pow2 (ilog2 x + 1)"
proof (cases "1 \<le> x")
  case True
  define n where "n = \<lfloor>x\<rfloor>"
  define b where "b = bitlen n"
  from True have n1: "1 \<le> n" unfolding n_def by simp
  then have n0: "0 < n" by simp
  from bitlen_bounds[OF n0] have lo: "2 ^ nat (b - 1) \<le> n" and hi: "n < 2 ^ nat b"
    unfolding b_def by simp_all
  have b1: "1 \<le> b" using n0 unfolding b_def by (simp add: bitlen_alt_def)
  have il: "ilog2 x = b - 1" using True by (simp add: ilog2_def b_def n_def)
  have "(2::rat) ^ nat (b - 1) = of_int (2 ^ nat (b - 1))" by simp
  also have "\<dots> \<le> of_int n" using lo by (simp only: of_int_le_iff)
  also have "\<dots> \<le> x" unfolding n_def by simp
  finally have l: "pow2 (b - 1) \<le> x" using b1 by (simp add: pow2_def)
  from hi have "n + 1 \<le> 2 ^ nat b" by simp
  then have "(of_int (n + 1) :: rat) \<le> of_int (2 ^ nat b)" by (simp only: of_int_le_iff)
  moreover have "x < of_int (n + 1)" unfolding n_def by linarith
  ultimately have "x < 2 ^ nat b" by simp
  then have u: "x < pow2 (b - 1 + 1)" using b1 by (simp add: pow2_def)
  from l u show ?thesis unfolding il by simp
next
  case False
  define y where "y = 1 / x"
  define n where "n = \<lceil>y\<rceil>"
  define b where "b = bitlen (n - 1)"
  from False assms have y1: "1 < y" unfolding y_def by simp
  then have n2: "2 \<le> n" unfolding n_def by linarith
  then have n0: "0 < n - 1" by simp
  from bitlen_bounds[OF n0] have lo: "2 ^ nat (b - 1) \<le> n - 1" and hi: "n - 1 < 2 ^ nat b"
    unfolding b_def by simp_all
  have b1: "1 \<le> b" using n0 unfolding b_def by (simp add: bitlen_alt_def)
  have il: "ilog2 x = - b" using False by (simp add: ilog2_def b_def n_def y_def)
  have x: "x = 1 / y" unfolding y_def by simp
  have ypos: "0 < y" using y1 by simp
  from hi have nb: "n \<le> 2 ^ nat b" by simp
  have "y \<le> of_int n" unfolding n_def by simp
  also have "(of_int n :: rat) \<le> of_int (2 ^ nat b)" using nb by (simp only: of_int_le_iff)
  also have "\<dots> = 2 ^ nat b" by simp
  finally have yu: "y \<le> 2 ^ nat b" .
  have "(2::rat) ^ nat (b - 1) = of_int (2 ^ nat (b - 1))" by simp
  also have "\<dots> \<le> of_int (n - 1)" using lo by (simp only: of_int_le_iff)
  also have "\<dots> < y" unfolding n_def by linarith
  finally have yl: "2 ^ nat (b - 1) < y" .
  have l: "pow2 (- b) \<le> x"
    using yu ypos b1 unfolding x by (simp add: pow2_def field_simps)
  have pw: "pow2 (- b + 1) = 1 / 2 ^ nat (b - 1)"
    using b1 by (cases "b = 1") (simp_all add: pow2_def)
  have "1 / y < 1 / 2 ^ nat (b - 1)"
    using yl ypos by (intro divide_strict_left_mono) simp_all
  then have u: "x < pow2 (- b + 1)" unfolding x pw .
  from l u show ?thesis unfolding il by simp
qed

text \<open>
  A natural number below \<open>2 ^ 53\<close> is a double, and the difference of two such numbers
  is computed exactly. An array has fewer than \<open>2 ^ 32\<close> elements, so its length and
  its indices are such numbers.
\<close>

lemma round_half_even_of_int: "round_half_even (of_int z) = z"
  by (simp add: round_half_even_def)

lemma pow2_nonpos: "e \<le> 0 \<Longrightarrow> pow2 e = 1 / 2 ^ nat (- e)"
  by (cases "e = 0") (simp_all add: pow2_def)

lemma round_double_of_nat:
  assumes "k < 2 ^ 53"
  shows "round_double s (of_nat k) = Finite s (of_nat k)"
proof (cases "k = 0")
  case True
  then show ?thesis by (simp add: round_double_def)
next
  case False
  define b where "b = bitlen (int k)"
  from assms have "int k < 2 ^ 53" by (metis of_nat_less_iff of_nat_numeral of_nat_power)
  then have b53: "b \<le> 53" unfolding b_def by (simp add: bitlen_le_iff_power)
  from False have x1: "(1::rat) \<le> of_nat k" by simp
  have il: "ilog2 (of_nat k) = b - 1"
    using x1 by (simp add: ilog2_def b_def)
  define e where "e = max (ilog2 (of_nat k) - 52) (- 1074)"
  have b0: "0 \<le> b" unfolding b_def by (rule bitlen_nonneg)
  have e: "e = b - 53" unfolding e_def il using b0 by simp
  then have e0: "e \<le> 0" using b53 by simp
  define z where "z = int k * 2 ^ nat (- e)"
  have q: "of_nat k / pow2 e = (of_int z :: rat)"
    by (simp add: pow2_nonpos[OF e0] z_def)
  have m: "round_half_even (of_nat k / pow2 e) = z"
    unfolding q by (rule round_half_even_of_int)
  have v: "of_int z * pow2 e = (of_nat k :: rat)"
    by (simp add: pow2_nonpos[OF e0] z_def)
  have "round_double s (of_nat k) =
        (if 971 < e \<or> (e = 971 \<and> 2 ^ 53 \<le> z) then Infinity s
         else Finite s (of_int z * pow2 e))"
    using False by (simp add: round_double_def Let_def e_def[symmetric] m)
  with e0 v show ?thesis by simp
qed

lemma js_of_nat_exact: "k < 2 ^ 53 \<Longrightarrow> js_of_nat k = Finite False (of_nat k)"
  by (simp add: js_of_nat_def round_double_of_nat)

lemma dbl_one: "dbl 1 = Finite False 1"
  using round_double_of_nat[of 1 False] by (simp add: dbl_def)

lemma js_sub_nat:
  assumes "b \<le> a" "a < 2 ^ 53"
  shows "js_sub (Finite False (of_nat a)) (Finite False (of_nat b))
           = Finite False (of_nat (a - b))"
proof (cases "a = b")
  case True
  then show ?thesis by (simp add: js_sub_def signed_def)
next
  case False
  with assms have lt: "b < a" by simp
  define d where "d = a - b"
  have v: "signed False (of_nat a) + signed True (of_nat b) = (of_nat d :: rat)"
    using lt by (simp add: signed_def d_def of_nat_diff)
  have dpos: "0 < d" using lt by (simp add: d_def)
  have "d < 2 ^ 53" using assms by (simp add: d_def)
  then have r: "round_double False (of_nat d) = Finite False (of_nat d)"
    by (rule round_double_of_nat)
  have "js_sub (Finite False (of_nat a)) (Finite False (of_nat b))
          = (if (of_nat d :: rat) = 0 then Finite False 0
             else round_double ((of_nat d :: rat) < 0) \<bar>of_nat d\<bar>)"
    by (simp only: js_sub_def js_neg.simps js_add.simps Let_def v simp_thms)
  also have "\<dots> = round_double False (of_nat d)"
    using dpos by simp
  also note r
  finally show ?thesis by (simp only: d_def)
qed

lemma exit_index:
  assumes "i < n" "n < 2 ^ 53"
  shows "js_sub (js_sub (js_of_nat n) (js_of_nat i)) (dbl 1) = js_of_nat (n - i - 1)"
proof -
  from assms have i: "i < 2 ^ 53" and d: "n - i < 2 ^ 53" and d1: "n - i - 1 < 2 ^ 53"
    by simp_all
  have le: "i \<le> n" "1 \<le> n - i" using assms by simp_all
  have "js_sub (js_of_nat n) (js_of_nat i) = Finite False (of_nat (n - i))"
    unfolding js_of_nat_exact[OF assms(2)] js_of_nat_exact[OF i]
    by (rule js_sub_nat[OF le(1) assms(2)])
  moreover have "js_sub (Finite False (of_nat (n - i))) (Finite False (of_nat 1))
                   = Finite False (of_nat (n - i - 1))"
    by (rule js_sub_nat[OF le(2) d])
  moreover have "dbl 1 = Finite False (of_nat 1)" by (simp add: dbl_one)
  ultimately show ?thesis by (simp only: js_of_nat_exact[OF d1])
qed

text \<open>
  Literals of the source as doubles: 0.05 is \<^verbatim>\<open>0x3FA999999999999A\<close>, 0.10 is
  \<^verbatim>\<open>0x3FB999999999999A\<close>, 0.3 is \<^verbatim>\<open>0x3FD3333333333333\<close>, and \<^verbatim>\<open>-20\<close> is the literal 20
  with the sign set.
\<close>

lemma literal_values:
  "dbl 0.05 = Finite False (7205759403792794 / 2 ^ 57)
   \<and> dbl 0.10 = Finite False (7205759403792794 / 2 ^ 56)
   \<and> dbl 0.3 = Finite False (5404319552844595 / 2 ^ 54)
   \<and> dbl 20 = Finite False 20 \<and> js_neg (dbl 20) = Finite True 20"
  by code_simp

text \<open>
  The products of the first indices with the stagger interval of the word granularity.
  Twice 0.05 is 0.10; three times 0.05 is 0.15000000000000002 and not 0.15; zero times
  infinity is not a number.
\<close>

lemma stagger_products:
  "js_mul (js_of_nat 0) (dbl 0.05) = dbl 0 \<and> js_mul (js_of_nat 1) (dbl 0.05) = dbl 0.05
   \<and> js_mul (js_of_nat 2) (dbl 0.05) = dbl 0.10"
  by code_simp

lemma fourth_stagger_product:
  "js_mul (js_of_nat 3) (dbl 0.05) = dbl 0.15000000000000002
   \<and> js_mul (js_of_nat 3) (dbl 0.05) \<noteq> dbl 0.15"
  by code_simp

lemma zero_times_infinity: "js_mul (js_of_nat 0) (Infinity False) = NaN"
  by (simp add: js_of_nat_def round_double_def)

section \<open>Properties of the rendered tree\<close>

text \<open>
  C6. With no \<^verbatim>\<open>staggerChildren\<close> the stagger interval is the one of the granularity,
  0.05 for \<^verbatim>\<open>word\<close> (also when \<^verbatim>\<open>by\<close> is omitted), 0.03 for \<^verbatim>\<open>character\<close>, 0.06 for
  \<^verbatim>\<open>text\<close> and \<^verbatim>\<open>line\<close>; a \<^verbatim>\<open>staggerChildren\<close> that is given is the interval.
\<close>

theorem stagger_default:
  "staggerChildren_of (p\<lparr>staggerChildren := None, by_prop := Some by_word\<rparr>) = dbl 0.05
   \<and> staggerChildren_of (p\<lparr>staggerChildren := None, by_prop := Some by_character\<rparr>) = dbl 0.03
   \<and> staggerChildren_of (p\<lparr>staggerChildren := None, by_prop := Some by_text\<rparr>) = dbl 0.06
   \<and> staggerChildren_of (p\<lparr>staggerChildren := None, by_prop := Some by_line\<rparr>) = dbl 0.06
   \<and> staggerChildren_of (p\<lparr>staggerChildren := None, by_prop := None\<rparr>) = dbl 0.05
   \<and> staggerChildren_of (p\<lparr>staggerChildren := Some s\<rparr>) = s"
  by (simp add: staggerChildren_of_def by_of_def)

subsection \<open>The children of the container\<close>

lemma entryOffset_item_node:
  "entryOffset (item_node p vs n (i, seg))
     = Some (js_mul (js_of_nat i) (staggerChildren_of p))"
  by (simp add: entryOffset_def item_node_def)

lemma exitOffset_item_node:
  "exitOffset (item_node p vs n (i, seg))
     = Some (js_mul (js_sub (js_sub (js_of_nat n) (js_of_nat i)) (dbl 1))
               (staggerChildren_of p))"
  by (simp add: exitOffset_def item_node_def)

lemma i_text_item_node: "i_text (item_node p vs n (i, seg)) = seg"
  by (simp add: item_node_def)

lemma i_variants_item_node: "i_variants (item_node p vs n (i, seg)) = vs"
  by (simp add: item_node_def)

lemma map_enumerate_nth:
  "map f (enumerate 0 xs) = map (\<lambda>i. f (i, xs ! i)) [0..<length xs]"
  by (rule nth_equalityI) (simp_all add: nth_enumerate_eq)

lemma children_entry:
  "map entryOffset (c_children (TextAnimate p)) =
     map (\<lambda>i. Some (js_mul (js_of_nat i) (staggerChildren_of p)))
       [0..<length (segments (by_of p) (children p))]"
  by (simp add: TextAnimate_def Let_def map_enumerate_nth entryOffset_item_node)

lemma children_exit:
  "map exitOffset (c_children (TextAnimate p)) =
     map (\<lambda>i. Some (js_mul
                (js_sub (js_sub (js_of_nat (length (segments (by_of p) (children p))))
                   (js_of_nat i)) (dbl 1))
                (staggerChildren_of p)))
       [0..<length (segments (by_of p) (children p))]"
  by (simp add: TextAnimate_def Let_def map_enumerate_nth exitOffset_item_node)

lemma children_text:
  "map i_text (c_children (TextAnimate p)) = segments (by_of p) (children p)"
  by (simp add: TextAnimate_def Let_def map_enumerate_nth i_text_item_node map_nth comp_def)

lemma children_variants:
  "map i_variants (c_children (TextAnimate p)) =
     replicate (length (segments (by_of p) (children p))) (item (finalVariants (animation_of p)))"
  by (simp add: TextAnimate_def Let_def map_enumerate_nth i_variants_item_node
      map_replicate_const comp_def)

lemma exit_offsets_index:
  assumes "n < 2 ^ 53"
  shows "map (\<lambda>i. Some (js_mul (js_sub (js_sub (js_of_nat n) (js_of_nat i)) (dbl 1)) s)) [0..<n]
           = map (\<lambda>i. Some (js_mul (js_of_nat (n - i - 1)) s)) [0..<n]"
proof (rule map_cong)
  fix i assume "i \<in> set [0..<n]"
  then have "i < n" by simp
  then show "Some (js_mul (js_sub (js_sub (js_of_nat n) (js_of_nat i)) (dbl 1)) s)
               = Some (js_mul (js_of_nat (n - i - 1)) s)"
    by (simp only: exit_index[OF _ assms])
qed simp

lemma rev_offsets:
  "map (\<lambda>i. Some (js_mul (js_of_nat (n - i - 1)) s)) [0..<n]
     = rev (map (\<lambda>i. Some (js_mul (js_of_nat i) s)) [0..<n])"
  by (rule nth_equalityI) (simp_all add: rev_nth)

lemma hello_segments:
  "segments (by_of hello_world_props) (children hello_world_props)
     = [str ''Hello'', str '' '', str ''world'']"
  by (simp add: hello_world_props_def by_of_def split_whitespace_def str_def is_space_def)

lemma variants_prop_unread: "TextAnimate (p\<lparr>variants := w\<rparr>) = TextAnimate p"
  by (simp add: TextAnimate_def item_node_def delay_of_def exitDelay_of_def as_of_def
      startOnView_of_def once_of_def by_of_def staggerChildren_of_def animation_of_def)

lemma duration_prop_unread: "TextAnimate (p\<lparr>duration := w\<rparr>) = TextAnimate p"
  by (simp add: TextAnimate_def item_node_def delay_of_def exitDelay_of_def as_of_def
      startOnView_of_def once_of_def by_of_def staggerChildren_of_def animation_of_def)

text \<open>
  C4. With \<open>n\<close> segments and the stagger interval \<open>s\<close>, the item at index \<open>i\<close> receives
  the entry offset \<open>i * s\<close> and the exit offset \<open>(n - i - 1) * s\<close>, the product and the
  differences being those of the language's doubles. For an array (fewer than \<open>2 ^ 53\<close>
  segments) the differences are exact, so that the entry offsets are the products of
  \<open>0, 1, ..., n - 1\<close> with \<open>s\<close> in the order of the segments, and the exit offsets are the
  same list reversed. The text \<^verbatim>\<open>"Hello world"\<close> at the word granularity has the segments
  \<^verbatim>\<open>"Hello"\<close>, \<^verbatim>\<open>" "\<close>, \<^verbatim>\<open>"world"\<close> and the entry offsets 0, 0.05, 0.10.
\<close>

theorem stagger_offsets:
  "map entryOffset (c_children (TextAnimate p)) =
     map (\<lambda>i. Some (js_mul (js_of_nat i) (staggerChildren_of p)))
       [0..<length (segments (by_of p) (children p))]
   \<and> map exitOffset (c_children (TextAnimate p)) =
     map (\<lambda>i. Some (js_mul
                (js_sub (js_sub (js_of_nat (length (segments (by_of p) (children p))))
                   (js_of_nat i)) (dbl 1))
                (staggerChildren_of p)))
       [0..<length (segments (by_of p) (children p))]
   \<and> (length (segments (by_of p) (children p)) < 2 ^ 53 \<longrightarrow>
        map exitOffset (c_children (TextAnimate p)) =
          map (\<lambda>i. Some (js_mul
                     (js_of_nat (length (segments (by_of p) (children p)) - i - 1))
                     (staggerChildren_of p)))
            [0..<length (segments (by_of p) (children p))]
        \<and> map exitOffset (c_children (TextAnimate p))
            = rev (map entryOffset (c_children (TextAnimate p))))
   \<and> map i_text (c_children (TextAnimate p)) = segments (by_of p) (children p)
   \<and> map i_text (c_children (TextAnimate hello_world_props))
       = [str ''Hello'', str '' '', str ''world'']
   \<and> map entryOffset (c_children (TextAnimate hello_world_props))
       = [Some (dbl 0), Some (dbl 0.05), Some (dbl 0.10)]"
proof -
  have three: "[0..<3] = [0, 1, 2]" by (simp add: upt_rec)
  have s: "staggerChildren_of hello_world_props = dbl 0.05"
    by (simp add: staggerChildren_of_def by_of_def hello_world_props_def)
  have ex: "map entryOffset (c_children (TextAnimate hello_world_props))
          = [Some (dbl 0), Some (dbl 0.05), Some (dbl 0.10)]"
    unfolding children_entry hello_segments s using stagger_products
    by (simp add: three numeral_2_eq_2)
  have rv: "map exitOffset (c_children (TextAnimate p))
              = map (\<lambda>i. Some (js_mul
                     (js_of_nat (length (segments (by_of p) (children p)) - i - 1))
                     (staggerChildren_of p)))
                  [0..<length (segments (by_of p) (children p))]
            \<and> map exitOffset (c_children (TextAnimate p))
              = rev (map entryOffset (c_children (TextAnimate p)))"
    if "length (segments (by_of p) (children p)) < 2 ^ 53"
    unfolding children_exit children_entry exit_offsets_index[OF that] rev_offsets
    by simp
  then have c3: "length (segments (by_of p) (children p)) < 2 ^ 53 \<longrightarrow>
        map exitOffset (c_children (TextAnimate p)) =
          map (\<lambda>i. Some (js_mul
                     (js_of_nat (length (segments (by_of p) (children p)) - i - 1))
                     (staggerChildren_of p)))
            [0..<length (segments (by_of p) (children p))]
        \<and> map exitOffset (c_children (TextAnimate p))
            = rev (map entryOffset (c_children (TextAnimate p)))"
    by (rule impI)
  have tx: "map i_text (c_children (TextAnimate hello_world_props))
              = [str ''Hello'', str '' '', str ''world'']"
    unfolding children_text by (rule hello_segments)
  show ?thesis
    by (intro conjI children_entry children_exit c3 children_text tx ex)
qed

text \<open>
  The three segments of \<^verbatim>\<open>"Hello world"\<close>: the exit offsets are 0.10, 0.05, 0, the entry
  offsets reversed.
\<close>

theorem stagger_offsets_witness:
  "length (segments (by_of hello_world_props) (children hello_world_props)) < 2 ^ 53
   \<and> map exitOffset (c_children (TextAnimate hello_world_props))
       = rev (map entryOffset (c_children (TextAnimate hello_world_props)))
   \<and> map exitOffset (c_children (TextAnimate hello_world_props))
       = [Some (dbl 0.10), Some (dbl 0.05), Some (dbl 0)]"
proof -
  have n: "length (segments (by_of hello_world_props) (children hello_world_props)) < 2 ^ 53"
    by (simp add: hello_segments)
  from stagger_offsets[of hello_world_props] n
  have r: "map exitOffset (c_children (TextAnimate hello_world_props))
             = rev (map entryOffset (c_children (TextAnimate hello_world_props)))"
    and e: "map entryOffset (c_children (TextAnimate hello_world_props))
             = [Some (dbl 0), Some (dbl 0.05), Some (dbl 0.10)]"
    by blast+
  show ?thesis using n r e by simp
qed

text \<open>
  C7 on the code. The rendered tree does not depend on the \<^verbatim>\<open>duration\<close> property: with
  \<^verbatim>\<open>duration={1}\<close> on \<^verbatim>\<open>"Hello world"\<close> the parameter is bound to 1 and the \<^verbatim>\<open>show\<close>
  transition of each of the three items still lasts the 0.3 seconds of the preset.
\<close>

theorem duration_prop_ignored:
  "TextAnimate (p\<lparr>duration := Some d\<rparr>) = TextAnimate p
   \<and> duration_of (hello_world_props\<lparr>duration := Some (dbl 1)\<rparr>) = dbl 1
   \<and> map (\<lambda>nd. transition_duration (resolveVariant (v_show (i_variants nd)) (i_custom nd)))
        (c_children (TextAnimate (hello_world_props\<lparr>duration := Some (dbl 1)\<rparr>)))
      = [Some (dbl 0.3), Some (dbl 0.3), Some (dbl 0.3)]"
proof -
  have "map (\<lambda>nd. transition_duration (resolveVariant (v_show (i_variants nd)) (i_custom nd)))
        (c_children (TextAnimate hello_world_props)) = [Some (dbl 0.3), Some (dbl 0.3), Some (dbl 0.3)]"
    using hello_segments
    by (simp add: TextAnimate_def Let_def item_node_def animation_of_def finalVariants_def
        truthy_def hello_world_props_def no_target_def no_transition_def timed_def
        enumerate_eq_zip upt_rec)
  then show ?thesis by (simp add: duration_prop_unread duration_of_def)
qed

text \<open>
  C1 on the code. The rendered tree does not depend on the \<^verbatim>\<open>variants\<close> property: the
  container and the items carry the variants of the preset. With the opacity-only
  variants given as \<^verbatim>\<open>variants\<close> on \<^verbatim>\<open>"Hello world"\<close>, each item is still hidden with
  the \<^verbatim>\<open>y = 20\<close> of \<^verbatim>\<open>fadeIn\<close>, which the given variants do not have.
\<close>

theorem custom_variants_ignored:
  "TextAnimate (p\<lparr>variants := Some v\<rparr>) = TextAnimate (p\<lparr>variants := None\<rparr>)
   \<and> c_variants (TextAnimate (p\<lparr>variants := Some v\<rparr>))
       = container (finalVariants (animation_of p))
   \<and> map i_variants (c_children (TextAnimate (p\<lparr>variants := Some v\<rparr>)))
       = replicate (length (segments (by_of p) (children p)))
           (item (finalVariants (animation_of p)))
   \<and> map (\<lambda>nd. resolveVariant (v_hidden (i_variants nd)) (i_custom nd))
        (c_children (TextAnimate (hello_world_props\<lparr>variants := Some defaultItemVariants\<rparr>)))
       = replicate 3 (no_target\<lparr>opacity := Some (dbl 0), y_pos := Some (dbl 20)\<rparr>)
   \<and> resolveVariant (v_hidden defaultItemVariants) c = no_target\<lparr>opacity := Some (dbl 0)\<rparr>
   \<and> no_target\<lparr>opacity := Some (dbl 0), y_pos := Some (dbl 20)\<rparr> \<noteq> no_target\<lparr>opacity := Some (dbl 0)\<rparr>"
proof -
  have hid: "map (\<lambda>nd. resolveVariant (v_hidden (i_variants nd)) (i_custom nd))
        (c_children (TextAnimate hello_world_props))
      = replicate 3 (no_target\<lparr>opacity := Some (dbl 0), y_pos := Some (dbl 20)\<rparr>)"
    using hello_segments
    by (simp add: TextAnimate_def Let_def item_node_def animation_of_def finalVariants_def
        truthy_def hello_world_props_def enumerate_eq_zip upt_rec numeral_3_eq_3)
  have ne: "no_target\<lparr>opacity := Some (dbl 0), y_pos := Some (dbl 20)\<rparr> \<noteq> no_target\<lparr>opacity := Some (dbl 0)\<rparr>"
    by (simp add: no_target_def)
  have c: "c_variants (TextAnimate p) = container (finalVariants (animation_of p))"
    by (simp add: TextAnimate_def Let_def)
  show ?thesis
    using children_variants[of p] hid ne c
    by (simp add: variants_prop_unread defaultItemVariants_def)
qed

end
